theory Spec2Isabelle
  imports Complex_Main "HOL-Library.Log_Nat"
begin

section \<open>Student speaking-assessment report: the score logic of the page script\<close>

text \<open>
  The page script works on JavaScript numbers. A finite binary64 number denotes exactly one
  real, and the script only compares scores with constants, rounds them to one decimal and
  divides them by nine, so a score is modelled as a \<^typ>\<open>real\<close>: comparison and
  rounding of the exact value are what the language computes; the quotient \<open>score / 9\<close>
  is the exact one, without the rounding of the binary division.
\<close>

subsection \<open>Values and errors of the language\<close>

datatype js_error =
    TypeError            \<comment> \<open>property access on \<open>undefined\<close> or \<open>null\<close>\<close>
  | SyntaxError string   \<comment> \<open>a body that is not well-formed JSON\<close>
  | Error string         \<comment> \<open>\<open>new Error(message)\<close>\<close>

datatype js_value = Str string | Undefined

text \<open>
  Reading \<open>obj[key]\<close> on an object literal finds the own property, otherwise the
  property of that name every object inherits from \<open>Object.prototype\<close>, otherwise
  \<open>undefined\<close>.
\<close>

datatype 'a property = Own 'a | Inherited | Absent

definition Object_prototype :: "string list" where
  "Object_prototype =
     [''constructor'', ''hasOwnProperty'', ''isPrototypeOf'', ''propertyIsEnumerable'',
      ''toLocaleString'', ''toString'', ''valueOf'', ''__proto__'',
      ''__defineGetter__'', ''__defineSetter__'', ''__lookupGetter__'', ''__lookupSetter__'']"

subsection \<open>Feedback: \<open>getFeedback\<close>\<close>

text \<open>
  The five property names of a message object, which are the five performance tiers:
  \<open>excellent\<close>, \<open>veryGood\<close>, \<open>good\<close>, \<open>moderate\<close>, \<open>needsImprovement\<close>.
\<close>

datatype tier = Excellent | VeryGood | Good | Moderate | NeedsImprovement

fun overall_messages :: "tier \<Rightarrow> string" where
  "overall_messages Excellent = ''Excellent performance! You demonstrate exceptional speaking abilities with strong control across all areas.''"
| "overall_messages VeryGood = ''Very good performance! You show strong speaking skills with minor areas for improvement.''"
| "overall_messages Good = ''Good performance with noticeable competence, though some inaccuracies are present.''"
| "overall_messages Moderate = ''Moderate performance. You can communicate but need significant improvement in several areas.''"
| "overall_messages NeedsImprovement = ''Needs improvement. Focus on building fundamental speaking skills across all areas.''"

fun pronunciation_messages :: "tier \<Rightarrow> string" where
  "pronunciation_messages Excellent = ''Excellent pronunciation with clear and accurate articulation of sounds.''"
| "pronunciation_messages VeryGood = ''Very good pronunciation with occasional minor errors that don't impede understanding.''"
| "pronunciation_messages Good = ''Good pronunciation but some sounds need improvement for better clarity.''"
| "pronunciation_messages Moderate = ''Pronunciation needs work; some words are unclear and may affect comprehension.''"
| "pronunciation_messages NeedsImprovement = ''Significant pronunciation challenges affecting overall clarity and understanding.''"

fun fluency_messages :: "tier \<Rightarrow> string" where
  "fluency_messages Excellent = ''Excellent fluency with natural speech flow and minimal hesitation.''"
| "fluency_messages VeryGood = ''Very good fluency with smooth delivery and only occasional pauses.''"
| "fluency_messages Good = ''Good fluency though some hesitation and unnatural pauses are noticeable.''"
| "fluency_messages Moderate = ''Fluency needs improvement; frequent hesitation affects the natural flow of speech.''"
| "fluency_messages NeedsImprovement = ''Significant fluency issues with many pauses and disrupted speech flow.''"

fun vocabulary_messages :: "tier \<Rightarrow> string" where
  "vocabulary_messages Excellent = ''Excellent vocabulary range with precise and sophisticated word choices.''"
| "vocabulary_messages VeryGood = ''Very good vocabulary with appropriate word selection and variety.''"
| "vocabulary_messages Good = ''Good vocabulary but limited range; occasional difficulty expressing complex ideas.''"
| "vocabulary_messages Moderate = ''Vocabulary needs expansion; basic words used, limiting expression.''"
| "vocabulary_messages NeedsImprovement = ''Limited vocabulary significantly restricts communication ability.''"

fun grammar_messages :: "tier \<Rightarrow> string" where
  "grammar_messages Excellent = ''Excellent grammatical accuracy with sophisticated sentence structures.''"
| "grammar_messages VeryGood = ''Very good grammar with minor errors that don't impede communication.''"
| "grammar_messages Good = ''Good grammar but some errors in complex structures are noticeable.''"
| "grammar_messages Moderate = ''Grammar needs improvement; errors are frequent and may affect clarity.''"
| "grammar_messages NeedsImprovement = ''Significant grammatical issues affecting overall comprehension.''"

text \<open>\<open>feedbackMap[skillType]\<close>: five own properties, each a message object.\<close>

definition feedbackMap :: "string \<Rightarrow> (tier \<Rightarrow> string) property" where
  "feedbackMap skillType =
     (if skillType = ''overall'' then Own overall_messages
      else if skillType = ''pronunciation'' then Own pronunciation_messages
      else if skillType = ''fluency'' then Own fluency_messages
      else if skillType = ''vocabulary'' then Own vocabulary_messages
      else if skillType = ''grammar'' then Own grammar_messages
      else if skillType \<in> set Object_prototype then Inherited
      else Absent)"

text \<open>
  The chain of comparisons at the end of \<open>getFeedback\<close> chooses which property of
  \<open>messages\<close> is returned; \<open>classifyScore\<close> is that choice.
\<close>

definition classifyScore :: "real \<Rightarrow> tier" where
  "classifyScore score =
     (if score \<ge> 8.0 then Excellent
      else if score \<ge> 7.0 then VeryGood
      else if score \<ge> 6.0 then Good
      else if score \<ge> 5.0 then Moderate
      else NeedsImprovement)"

text \<open>
  \<open>messages.excellent\<close> and its four siblings: the message when \<open>messages\<close> is one of the
  five message objects; \<open>undefined\<close> when it is an inherited function or object, which has
  no such property; a \<open>TypeError\<close> when \<open>messages\<close> itself is \<open>undefined\<close>.
\<close>

fun read_message :: "(tier \<Rightarrow> string) property \<Rightarrow> tier \<Rightarrow> js_error + js_value" where
  "read_message (Own messages) t = Inr (Str (messages t))"
| "read_message Inherited t = Inr Undefined"
| "read_message Absent t = Inl TypeError"

text \<open>The second argument is \<open>None\<close> when the caller leaves it out.\<close>

definition getFeedback :: "real \<Rightarrow> string option \<Rightarrow> js_error + js_value" where
  "getFeedback score skillType =
     (let messages = feedbackMap (case skillType of None \<Rightarrow> ''overall'' | Some k \<Rightarrow> k)
      in read_message messages (classifyScore score))"

subsection \<open>Colour coding: \<open>getScoreClass\<close>\<close>

definition getScoreClass :: "real \<Rightarrow> string" where
  "getScoreClass score =
     (if score \<ge> 8.0 then ''score-excellent''
      else if score \<ge> 7.0 then ''score-good''
      else if score \<ge> 6.0 then ''score-fair''
      else ''score-poor'')"

subsection \<open>One-decimal display: \<open>toFixed\<close>\<close>

definition digit :: "nat \<Rightarrow> char" where
  "digit d = ''0123456789'' ! d"

fun decimal :: "nat \<Rightarrow> string" where
  "decimal n = (if n < 10 then [digit n] else decimal (n div 10) @ [digit (n mod 10)])"

declare decimal.simps [simp del]

text \<open>
  \<open>x.toFixed(f)\<close> as the language standard defines it on the exact value of \<open>x\<close>: the sign
  is split off; \<open>n\<close> is the integer nearest to \<open>x * 10^f\<close>, the larger one of two equally
  near; its decimal digits are padded with zeros to \<open>f + 1\<close> places and the point is put
  before the last \<open>f\<close> of them. From \<open>10^21\<close> on, the result is the number's ordinary
  conversion to a string, which is a parameter here (\<open>ToString\<close>): it prints the shortest
  digits that denote the same binary64 number, which has no counterpart on the reals.
  The script only calls \<open>toFixed(1)\<close>.
\<close>

definition toFixed :: "(real \<Rightarrow> string) \<Rightarrow> nat \<Rightarrow> real \<Rightarrow> string" where
  "toFixed ToString f x0 =
     (let s = (if x0 < 0 then ''-'' else []);
          x = (if x0 < 0 then - x0 else x0);
          m = (if x \<ge> 10 ^ 21 then ToString x
               else
                 let n = nat \<lfloor>x * 10 ^ f + 1 / 2\<rfloor>;
                     m = decimal n;
                     m = (if length m \<le> f then replicate (f + 1 - length m) CHR ''0'' @ m else m);
                     k = length m
                 in if f \<noteq> 0 then take (k - f) m @ ''.'' @ drop (k - f) m else m)
      in s @ m)"

subsection \<open>The record and the page\<close>

record skill_scores =
  pronunciation :: real
  fluency :: real
  vocabulary :: real
  grammar :: real

record assessment =
  studentId :: string
  studentName :: string
  testDate :: string
  overallScore :: real
  skills :: skill_scores

text \<open>
  The page is the state the script writes to: the elements that \<open>getElementById\<close> finds,
  the charts made so far, the console and the alerts shown. Of an element, the script
  sets the text, the class name and the width of its style; the width is the number
  it is computed from, with its unit.
\<close>

datatype css_width = Percent real

record element =
  textContent :: string
  className :: string
  style_width :: "css_width option"

record chart =
  canvas :: string
  chart_type :: string
  labels :: "string list"
  dataset_label :: string
  dataset :: "real list"

record page =
  elements :: "string \<rightharpoonup> element"
  charts :: "chart list"
  console :: "(string \<times> js_error) list"
  alerts :: "string list"

text \<open>
  A statement runs on the page and either completes or throws; what it wrote before it
  threw stays written. \<open>seq\<close> runs statements in order and stops at the first throw.
\<close>

type_synonym stmt = "page \<Rightarrow> js_error option \<times> page"

fun seq :: "stmt list \<Rightarrow> stmt" where
  "seq [] p = (None, p)"
| "seq (c # cs) p = (case c p of (None, p') \<Rightarrow> seq cs p' | (Some e, p') \<Rightarrow> (Some e, p'))"

text \<open>
  \<open>document.getElementById(id).textContent = v\<close>, and the same for \<open>className\<close>:
  \<open>getElementById\<close> gives \<open>null\<close> for an id the page does not have, and the assignment
  to a property of \<open>null\<close> throws.
\<close>

definition setTextContent :: "string \<Rightarrow> string \<Rightarrow> stmt" where
  "setTextContent i v p =
     (case elements p i of
        None \<Rightarrow> (Some TypeError, p)
      | Some el \<Rightarrow> (None, p\<lparr>elements := (elements p)(i \<mapsto> el\<lparr>textContent := v\<rparr>)\<rparr>))"

definition setClassName :: "string \<Rightarrow> string \<Rightarrow> stmt" where
  "setClassName i v p =
     (case elements p i of
        None \<Rightarrow> (Some TypeError, p)
      | Some el \<Rightarrow> (None, p\<lparr>elements := (elements p)(i \<mapsto> el\<lparr>className := v\<rparr>)\<rparr>))"

text \<open>
  The text of an element is a nullable string attribute: \<open>undefined\<close> is stored as the
  empty text. A call of \<open>getFeedback\<close> that throws makes the statement throw.
\<close>

fun DOMString :: "js_value \<Rightarrow> string" where
  "DOMString (Str s) = s"
| "DOMString Undefined = []"

definition setFeedback :: "string \<Rightarrow> js_error + js_value \<Rightarrow> stmt" where
  "setFeedback i r p =
     (case r of Inl e \<Rightarrow> (Some e, p) | Inr v \<Rightarrow> setTextContent i (DOMString v) p)"

definition updateProgressBar :: "string \<Rightarrow> real \<Rightarrow> stmt" where
  "updateProgressBar elementId score p =
     (case elements p elementId of
        None \<Rightarrow> (Some TypeError, p)
      | Some progressBar \<Rightarrow>
          (let percentage = (score / 9) * 100
           in (None, p\<lparr>elements :=
                 (elements p)(elementId \<mapsto> progressBar\<lparr>style_width := Some (Percent percentage)\<rparr>)\<rparr>)))"

subsection \<open>Charts: \<open>createCharts\<close>\<close>

definition skillLabels :: "string list" where
  "skillLabels = [''Pronunciation'', ''Fluency'', ''Vocabulary'', ''Grammar'']"

definition skillValues :: "skill_scores \<Rightarrow> real list" where
  "skillValues sk = [pronunciation sk, fluency sk, vocabulary sk, grammar sk]"

text \<open>
  \<open>new Chart(document.getElementById(id).getContext('2d'), config)\<close>: the charting
  library is outside the repository; a chart is recorded with the canvas, the type, the
  labels and the one data set of its configuration (colours and axis options are left out).
\<close>

definition newChart :: "string \<Rightarrow> string \<Rightarrow> string list \<Rightarrow> string \<Rightarrow> real list \<Rightarrow> stmt" where
  "newChart i ty ls dl vs p =
     (case elements p i of
        None \<Rightarrow> (Some TypeError, p)
      | Some _ \<Rightarrow>
          (None, p\<lparr>charts := charts p @
             [\<lparr>canvas = i, chart_type = ty, labels = ls, dataset_label = dl, dataset = vs\<rparr>]\<rparr>))"

definition createCharts :: "skill_scores \<Rightarrow> stmt" where
  "createCharts sk =
     seq [newChart ''radarChart'' ''radar'' skillLabels ''Skills Assessment'' (skillValues sk),
          newChart ''barChart'' ''bar'' skillLabels ''Score'' (skillValues sk)]"

subsection \<open>Display: \<open>displayStudentData\<close>\<close>

definition displayStudentData :: "(real \<Rightarrow> string) \<Rightarrow> assessment \<Rightarrow> stmt" where
  "displayStudentData ToString d =
     (let pronScore = pronunciation (skills d);
          fluencyScore = fluency (skills d);
          vocabScore = vocabulary (skills d);
          grammarScore = grammar (skills d)
      in seq
       [setTextContent ''studentName'' (studentName d),
        setTextContent ''testDate'' (testDate d),
        setTextContent ''overallScore'' (toFixed ToString 1 (overallScore d)),
        setClassName ''overallScore'' (''score-value '' @ getScoreClass (overallScore d)),
        setFeedback ''overallDescription'' (getFeedback (overallScore d) (Some ''overall'')),
        setFeedback ''overallFeedback'' (getFeedback (overallScore d) (Some ''overall'')),
        setTextContent ''pronunciationScore'' (toFixed ToString 1 pronScore),
        setClassName ''pronunciationScore'' (''skill-score '' @ getScoreClass pronScore),
        updateProgressBar ''pronunciationProgress'' pronScore,
        setFeedback ''pronunciationFeedback'' (getFeedback pronScore (Some ''pronunciation'')),
        setTextContent ''fluencyScore'' (toFixed ToString 1 fluencyScore),
        setClassName ''fluencyScore'' (''skill-score '' @ getScoreClass fluencyScore),
        updateProgressBar ''fluencyProgress'' fluencyScore,
        setFeedback ''fluencyFeedback'' (getFeedback fluencyScore (Some ''fluency'')),
        setTextContent ''vocabularyScore'' (toFixed ToString 1 vocabScore),
        setClassName ''vocabularyScore'' (''skill-score '' @ getScoreClass vocabScore),
        updateProgressBar ''vocabularyProgress'' vocabScore,
        setFeedback ''vocabularyFeedback'' (getFeedback vocabScore (Some ''vocabulary'')),
        setTextContent ''grammarScore'' (toFixed ToString 1 grammarScore),
        setClassName ''grammarScore'' (''skill-score '' @ getScoreClass grammarScore),
        updateProgressBar ''grammarProgress'' grammarScore,
        setFeedback ''grammarFeedback'' (getFeedback grammarScore (Some ''grammar'')),
        createCharts (skills d)])"

subsection \<open>Loading: the endpoint of the server and \<open>loadStudentData\<close>\<close>

text \<open>
  The handler of \<open>GET /api/student-report\<close>. Reading the file and parsing its text are
  given by their outcomes: the message of the error thrown, or the result.
\<close>

datatype 'a reply_body = Json 'a | ErrorJson string string

record 'a reply =
  status :: nat
  body :: "'a reply_body"

definition student_report :: "string + string \<Rightarrow> (string \<Rightarrow> string + 'a) \<Rightarrow> 'a reply" where
  "student_report readFileSync JSON_parse =
     (case readFileSync of
        Inl message \<Rightarrow> \<lparr>status = 500, body = ErrorJson ''Failed to load student data'' message\<rparr>
      | Inr file_text \<Rightarrow>
          (case JSON_parse file_text of
             Inl message \<Rightarrow> \<lparr>status = 500, body = ErrorJson ''Failed to load student data'' message\<rparr>
           | Inr studentData \<Rightarrow> \<lparr>status = 200, body = Json studentData\<rparr>))"

text \<open>
  What \<open>fetch\<close> gives the script: a rejection, or a response with its status and with the
  outcome that reading its body as JSON would have. \<open>response.ok\<close> holds for the statuses
  200 to 299. A body that is well-formed JSON of another shape than the record is outside
  the model.
\<close>

datatype fetch_result = Rejects js_error | Resolves nat "js_error + assessment"

definition response_ok :: "nat \<Rightarrow> bool" where
  "response_ok st \<longleftrightarrow> 200 \<le> st \<and> st \<le> 299"

text \<open>The \<open>catch\<close> block: the error is logged and the user is alerted.\<close>

definition catch_block :: "js_error \<Rightarrow> page \<Rightarrow> page" where
  "catch_block e p =
     p\<lparr>console := console p @ [(''Error loading student data:'', e)],
       alerts := alerts p @
         [''Failed to load student data. Please make sure the server is running on port 3000.'']\<rparr>"

definition loadStudentData :: "(real \<Rightarrow> string) \<Rightarrow> fetch_result \<Rightarrow> page \<Rightarrow> page" where
  "loadStudentData ToString response p =
     (case response of
        Rejects e \<Rightarrow> catch_block e p
      | Resolves st js \<Rightarrow>
          if \<not> response_ok st then catch_block (Error ''Failed to fetch data'') p
          else
            (case js of
               Inl e \<Rightarrow> catch_block e p
             | Inr d \<Rightarrow>
                 (case displayStudentData ToString d p of
                    (None, p') \<Rightarrow> p'
                  | (Some e, p') \<Rightarrow> catch_block e p')))"

subsection \<open>Reading a displayed score back\<close>

text \<open>
  The script never reads a formatted score back. To state the round trip, the string is
  read as the decimal numeral it is: an optional minus sign, digits, and optionally a
  point with further digits. \<open>parseDecimal\<close> gives the exact value that the numeral
  denotes. \<open>parseFloat\<close> gives what the language's own reader makes of such a numeral:
  that value rounded to the nearest binary64 number, to the even significand when two are
  equally near, and no finite number when the rounded value is out of range.
\<close>

fun position :: "char \<Rightarrow> string \<Rightarrow> nat option" where
  "position c [] = None"
| "position c (x # xs) = (if c = x then Some 0 else map_option Suc (position c xs))"

definition digit_value :: "char \<Rightarrow> nat option" where
  "digit_value c = position c ''0123456789''"

fun digits_value :: "nat \<Rightarrow> string \<Rightarrow> nat option" where
  "digits_value acc [] = Some acc"
| "digits_value acc (c # cs) =
     (case digit_value c of None \<Rightarrow> None | Some d \<Rightarrow> digits_value (10 * acc + d) cs)"

definition parseDecimal :: "string \<Rightarrow> real option" where
  "parseDecimal str =
     (let negative = (str \<noteq> [] \<and> hd str = CHR ''-'');
          unsigned = (if negative then tl str else str);
          int_part = takeWhile (\<lambda>c. c \<noteq> CHR ''.'') unsigned;
          frac_part = drop (length int_part + 1) unsigned
      in if int_part = [] then None
         else
           (case (digits_value 0 int_part, digits_value 0 frac_part) of
              (Some i, Some f) \<Rightarrow>
                Some ((if negative then - 1 else 1) * (real i + real f / 10 ^ length frac_part))
            | _ \<Rightarrow> None))"

text \<open>The exponent \<open>e\<close> with \<open>2^e \<le> x < 2^(e+1)\<close>, for a positive \<open>x\<close>.\<close>

definition binary_exponent :: "real \<Rightarrow> int" where
  "binary_exponent x = (if 1 \<le> x then bitlen \<lfloor>x\<rfloor> - 1 else - bitlen (\<lceil>1 / x\<rceil> - 1))"

definition round_half_even :: "real \<Rightarrow> int" where
  "round_half_even q =
     (let f = \<lfloor>q\<rfloor>
      in if q - of_int f < 1 / 2 then f
         else if 1 / 2 < q - of_int f then f + 1
         else if even f then f else f + 1)"

text \<open>
  A binary64 number has a significand of 53 bits and an exponent of at least -1022; below
  \<open>2^-1022\<close> the spacing stays that of the smallest exponent.
\<close>

definition binary64 :: "real \<Rightarrow> real option" where
  "binary64 x =
     (if x = 0 then Some 0
      else
        let e = max (binary_exponent \<bar>x\<bar>) (- 1022);
            m = round_half_even (\<bar>x\<bar> * 2 powi (52 - e));
            r = of_int m * 2 powi (e - 52)
        in if r < 2 ^ 1024 then Some (sgn x * r) else None)"

definition parseFloat :: "string \<Rightarrow> real option" where
  "parseFloat str = (case parseDecimal str of None \<Rightarrow> None | Some d \<Rightarrow> binary64 d)"

subsection \<open>Names used in the statements\<close>

text \<open>The own property names of \<open>feedbackMap\<close>.\<close>

definition skillTypes :: "string list" where
  "skillTypes = [''overall'', ''pronunciation'', ''fluency'', ''vocabulary'', ''grammar'']"

text \<open>The ids that \<open>displayStudentData\<close> and \<open>createCharts\<close> look up.\<close>

definition page_ids :: "string list" where
  "page_ids =
     [''studentName'', ''testDate'', ''overallScore'', ''overallDescription'', ''overallFeedback'',
      ''pronunciationScore'', ''pronunciationProgress'', ''pronunciationFeedback'',
      ''fluencyScore'', ''fluencyProgress'', ''fluencyFeedback'',
      ''vocabularyScore'', ''vocabularyProgress'', ''vocabularyFeedback'',
      ''grammarScore'', ''grammarProgress'', ''grammarFeedback'',
      ''radarChart'', ''barChart'']"

abbreviation text_of :: "page \<Rightarrow> string \<Rightarrow> string option" where
  "text_of p i \<equiv> map_option textContent (elements p i)"

abbreviation class_of :: "page \<Rightarrow> string \<Rightarrow> string option" where
  "class_of p i \<equiv> map_option className (elements p i)"

abbreviation width_of :: "page \<Rightarrow> string \<Rightarrow> css_width option option" where
  "width_of p i \<equiv> map_option style_width (elements p i)"

text \<open>
  Concrete inputs for the instances below: a page that has every element the script
  looks up, all of them empty; a conversion for numbers from \<open>10^21\<close> on that is never
  reached by the instances; the record of the project's \<open>README\<close>; a record whose
  scores all lie off the scale from 0 to 9; a parser that rejects its text.
\<close>

definition blank_page :: page where
  "blank_page =
     \<lparr>elements = (\<lambda>i. if i \<in> set page_ids
                       then Some \<lparr>textContent = [], className = [], style_width = None\<rparr>
                       else None),
      charts = [], console = [], alerts = []\<rparr>"

definition no_exponent :: "real \<Rightarrow> string" where
  "no_exponent x = []"

definition john_doe :: assessment where
  "john_doe =
     \<lparr>studentId = ''STU001'', studentName = ''John Doe'', testDate = ''2024-12-20'',
      overallScore = 7.5,
      skills = \<lparr>pronunciation = 8.0, fluency = 7.5, vocabulary = 7.0, grammar = 7.5\<rparr>\<rparr>"

definition off_scale :: assessment where
  "off_scale =
     \<lparr>studentId = ''STU002'', studentName = ''Off Scale'', testDate = ''2024-12-21'',
      overallScore = - 1,
      skills = \<lparr>pronunciation = 12, fluency = 9.5, vocabulary = - 3, grammar = 100\<rparr>\<rparr>"

definition no_json :: "string \<Rightarrow> string + assessment" where
  "no_json file_text = Inl ''Unexpected end of JSON input''"

section \<open>The score classifiers\<close>

text \<open>
  C1: \<open>classifyScore\<close> is a total function on the reals whose five tiers split the line at
  8, 7, 6 and 5, each boundary belonging to the tier above it: a score is Excellent exactly
  from 8.0 on, VeryGood exactly in [7, 8), Good exactly in [6, 7), Moderate exactly in
  [5, 6) and NeedsImprovement exactly below 5. In particular 8.0 is Excellent, 7.999 is
  VeryGood, 5.0 is Moderate and 4.999 is NeedsImprovement.
\<close>

theorem classifyScore_partition:
  "(classifyScore s = Excellent \<longleftrightarrow> 8 \<le> s) \<and>
   (classifyScore s = VeryGood \<longleftrightarrow> 7 \<le> s \<and> s < 8) \<and>
   (classifyScore s = Good \<longleftrightarrow> 6 \<le> s \<and> s < 7) \<and>
   (classifyScore s = Moderate \<longleftrightarrow> 5 \<le> s \<and> s < 6) \<and>
   (classifyScore s = NeedsImprovement \<longleftrightarrow> s < 5) \<and>
   classifyScore 8.0 = Excellent \<and> classifyScore 7.999 = VeryGood \<and>
   classifyScore 5.0 = Moderate \<and> classifyScore 4.999 = NeedsImprovement"
  by (simp add: classifyScore_def)

theorem classifyScore_partition_witness:
  "(7 \<le> (7.2::real) \<and> (7.2::real) < 8) \<and> classifyScore 7.2 = VeryGood"
  using classifyScore_partition [of "7.2"] by simp

text \<open>
  C3: \<open>getScoreClass\<close> (the style tier) is a total four-way classification with thresholds
  of its own: excellent exactly from 8.0 on, good exactly in [7, 8), fair exactly in [6, 7)
  and poor exactly below 6. It is not the partition of the five tiers: 5.5 and 4 get the
  same style and different tiers, so the tier is not a function of the style.
\<close>

theorem getScoreClass_partition:
  "(getScoreClass s = ''score-excellent'' \<longleftrightarrow> 8 \<le> s) \<and>
   (getScoreClass s = ''score-good'' \<longleftrightarrow> 7 \<le> s \<and> s < 8) \<and>
   (getScoreClass s = ''score-fair'' \<longleftrightarrow> 6 \<le> s \<and> s < 7) \<and>
   (getScoreClass s = ''score-poor'' \<longleftrightarrow> s < 6) \<and>
   getScoreClass 5.5 = getScoreClass 4 \<and> classifyScore 5.5 \<noteq> classifyScore 4 \<and>
   \<not> (\<exists>f. \<forall>x. classifyScore x = f (getScoreClass x))"
proof -
  have same: "getScoreClass 5.5 = getScoreClass 4"
    by (simp add: getScoreClass_def)
  have differ: "classifyScore 5.5 \<noteq> classifyScore 4"
    by (simp add: classifyScore_def)
  have "\<not> (\<exists>f. \<forall>x. classifyScore x = f (getScoreClass x))"
  proof
    assume "\<exists>f. \<forall>x. classifyScore x = f (getScoreClass x)"
    then obtain f where f: "\<forall>x. classifyScore x = f (getScoreClass x)" ..
    then have "classifyScore 5.5 = f (getScoreClass 5.5)" and "classifyScore 4 = f (getScoreClass 4)"
      by blast+
    with same differ show False by simp
  qed
  moreover have
    "(getScoreClass s = ''score-excellent'' \<longleftrightarrow> 8 \<le> s) \<and>
     (getScoreClass s = ''score-good'' \<longleftrightarrow> 7 \<le> s \<and> s < 8) \<and>
     (getScoreClass s = ''score-fair'' \<longleftrightarrow> 6 \<le> s \<and> s < 7) \<and>
     (getScoreClass s = ''score-poor'' \<longleftrightarrow> s < 6)"
    by (simp add: getScoreClass_def)
  ultimately show ?thesis using same differ by blast
qed

theorem getScoreClass_partition_witness:
  "(6 \<le> (6.9::real) \<and> (6.9::real) < 7) \<and> getScoreClass 6.9 = ''score-fair''"
  using getScoreClass_partition [of "6.9"] by simp

text \<open>
  C4: at the score 6.5 the style tier is fair while the performance tier is Good; both
  hold together, and the style tier at 6.5 is not the one called good.
\<close>

theorem classifiers_at_6_5:
  "getScoreClass 6.5 = ''score-fair'' \<and> classifyScore 6.5 = Good \<and>
   getScoreClass 6.5 \<noteq> ''score-good''"
  by (simp add: getScoreClass_def classifyScore_def)

text \<open>
  C10: a call of \<open>getFeedback\<close> that leaves the category out gives what the call with the
  category \<open>overall\<close> gives, for every score.
\<close>

theorem getFeedback_default_category:
  "getFeedback s None = getFeedback s (Some ''overall'')"
  by (simp add: getFeedback_def)

section \<open>Feedback by category\<close>

lemma getFeedback_own:
  "getFeedback s (Some ''overall'') = Inr (Str (overall_messages (classifyScore s)))"
  "getFeedback s (Some ''pronunciation'') = Inr (Str (pronunciation_messages (classifyScore s)))"
  "getFeedback s (Some ''fluency'') = Inr (Str (fluency_messages (classifyScore s)))"
  "getFeedback s (Some ''vocabulary'') = Inr (Str (vocabulary_messages (classifyScore s)))"
  "getFeedback s (Some ''grammar'') = Inr (Str (grammar_messages (classifyScore s)))"
  by (simp_all add: getFeedback_def feedbackMap_def)

lemma messages_nonempty:
  "overall_messages t \<noteq> []" "pronunciation_messages t \<noteq> []" "fluency_messages t \<noteq> []"
  "vocabulary_messages t \<noteq> []" "grammar_messages t \<noteq> []"
  by (cases t; simp)+

lemma feedback_distinct:
  "distinct (map (\<lambda>(k, t). read_message (feedbackMap k) t)
     (List.product skillTypes [Excellent, VeryGood, Good, Moderate, NeedsImprovement]))"
  by (simp add: skillTypes_def feedbackMap_def)

lemma messages_specific:
  assumes "k \<in> set skillTypes" "k' \<in> set skillTypes"
    and "getFeedback s (Some k) = getFeedback s' (Some k')"
  shows "k = k' \<and> classifyScore s = classifyScore s'"
proof -
  let ?tiers = "[Excellent, VeryGood, Good, Moderate, NeedsImprovement]"
  let ?f = "\<lambda>(k, t). read_message (feedbackMap k) t"
  have all: "t \<in> set ?tiers" for t by (cases t) simp_all
  have inj: "inj_on ?f (set (List.product skillTypes ?tiers))"
    using feedback_distinct by (simp only: distinct_map)
  have m1: "(k, classifyScore s) \<in> set (List.product skillTypes ?tiers)"
    and m2: "(k', classifyScore s') \<in> set (List.product skillTypes ?tiers)"
    using assms(1,2) all by (simp_all del: set_simps)
  have eq: "?f (k, classifyScore s) = ?f (k', classifyScore s')"
    using assms(3) by (simp add: getFeedback_def)
  have "(k, classifyScore s) = (k', classifyScore s')"
    by (rule inj_onD [OF inj eq m1 m2])
  then show ?thesis by simp
qed

text \<open>
  C2 (as the code has it): for each of the five categories \<open>getFeedback\<close> returns a
  non-empty string that depends on the score only through its tier, and the string
  determines both the category and the tier, so the 25 strings are pairwise different.
  For a category outside the five no error of its own exists: the call throws the
  \<open>TypeError\<close> of reading a property of \<open>undefined\<close>, unless the name is one that every
  object inherits (\<open>constructor\<close>, \<open>toString\<close>, ...), for which it returns \<open>undefined\<close>
  and does not fail.
\<close>

theorem getFeedback_by_category:
  "(k \<in> set skillTypes \<longrightarrow> (\<exists>m. getFeedback s (Some k) = Inr (Str m) \<and> m \<noteq> [])) \<and>
   (k \<in> set skillTypes \<and> k' \<in> set skillTypes \<and> getFeedback s (Some k) = getFeedback s' (Some k')
      \<longrightarrow> k = k' \<and> classifyScore s = classifyScore s') \<and>
   (classifyScore s = classifyScore s' \<longrightarrow> getFeedback s (Some k) = getFeedback s' (Some k)) \<and>
   (k \<notin> set skillTypes \<and> k \<notin> set Object_prototype \<longrightarrow> getFeedback s (Some k) = Inl TypeError) \<and>
   (k \<in> set Object_prototype \<longrightarrow> getFeedback s (Some k) = Inr Undefined)"
proof (intro conjI impI)
  assume "k \<in> set skillTypes"
  then show "\<exists>m. getFeedback s (Some k) = Inr (Str m) \<and> m \<noteq> []"
    unfolding skillTypes_def by (auto simp: getFeedback_own messages_nonempty)
next
  assume "k \<in> set skillTypes \<and> k' \<in> set skillTypes \<and>
    getFeedback s (Some k) = getFeedback s' (Some k')"
  then show "k = k'" and "classifyScore s = classifyScore s'"
    using messages_specific[of k k' s s'] by simp_all
next
  assume "classifyScore s = classifyScore s'"
  then show "getFeedback s (Some k) = getFeedback s' (Some k)"
    by (simp add: getFeedback_def)
next
  assume "k \<notin> set skillTypes \<and> k \<notin> set Object_prototype"
  then show "getFeedback s (Some k) = Inl TypeError"
    by (simp add: getFeedback_def feedbackMap_def skillTypes_def)
next
  assume "k \<in> set Object_prototype"
  then show "getFeedback s (Some k) = Inr Undefined"
    by (auto simp: getFeedback_def feedbackMap_def Object_prototype_def)
qed

theorem getFeedback_by_category_witness:
  "(''grammar'' \<in> set skillTypes \<and>
      getFeedback 6.5 (Some ''grammar'') = getFeedback 6.2 (Some ''grammar'')) \<and>
   classifyScore 6.5 = classifyScore 6.2 \<and>
   (\<exists>m. getFeedback 6.5 (Some ''grammar'') = Inr (Str m) \<and> m \<noteq> []) \<and>
   (''unknown'' \<notin> set skillTypes \<and> ''unknown'' \<notin> set Object_prototype) \<and>
   getFeedback 6.5 (Some ''unknown'') = Inl TypeError \<and>
   ''valueOf'' \<in> set Object_prototype \<and> getFeedback 6.5 (Some ''valueOf'') = Inr Undefined"
proof -
  have h1: "''grammar'' \<in> set skillTypes"
    by (simp add: skillTypes_def)
  have h2: "getFeedback 6.5 (Some ''grammar'') = getFeedback 6.2 (Some ''grammar'')"
    by (simp add: getFeedback_def classifyScore_def)
  have h3: "''unknown'' \<notin> set skillTypes \<and> ''unknown'' \<notin> set Object_prototype"
    by (simp add: skillTypes_def Object_prototype_def)
  have h4: "''valueOf'' \<in> set Object_prototype"
    by (simp add: Object_prototype_def)
  show ?thesis
    using h1 h2 h3 h4
      getFeedback_by_category [of "''grammar''" "6.5" "''grammar''" "6.2"]
      getFeedback_by_category [of "''unknown''" "6.5" "''unknown''" "6.5"]
      getFeedback_by_category [of "''valueOf''" "6.5" "''valueOf''" "6.5"]
    by blast
qed

text \<open>
  C2 as stated fails: \<open>toString\<close> is outside the five categories, and the call neither
  fails nor returns a string.
\<close>

theorem getFeedback_inherited_counterexample:
  "''toString'' \<notin> set skillTypes \<and> getFeedback 9 (Some ''toString'') = Inr Undefined"
  by (simp add: skillTypes_def getFeedback_def feedbackMap_def Object_prototype_def)

section \<open>The display\<close>

lemma displayStudentData_effect:
  assumes ids: "set page_ids \<subseteq> dom (elements p)"
  shows "\<exists>p'. displayStudentData ts d p = (None, p') \<and>
     text_of p' ''studentName'' = Some (studentName d) \<and>
     text_of p' ''testDate'' = Some (testDate d) \<and>
     text_of p' ''overallScore'' = Some (toFixed ts 1 (overallScore d)) \<and>
     class_of p' ''overallScore'' = Some (''score-value '' @ getScoreClass (overallScore d)) \<and>
     text_of p' ''overallDescription'' = Some (overall_messages (classifyScore (overallScore d))) \<and>
     text_of p' ''overallFeedback'' = Some (overall_messages (classifyScore (overallScore d))) \<and>
     text_of p' ''pronunciationScore'' = Some (toFixed ts 1 (pronunciation (skills d))) \<and>
     class_of p' ''pronunciationScore'' =
       Some (''skill-score '' @ getScoreClass (pronunciation (skills d))) \<and>
     width_of p' ''pronunciationProgress'' =
       Some (Some (Percent (pronunciation (skills d) / 9 * 100))) \<and>
     text_of p' ''pronunciationFeedback'' =
       Some (pronunciation_messages (classifyScore (pronunciation (skills d)))) \<and>
     text_of p' ''fluencyScore'' = Some (toFixed ts 1 (fluency (skills d))) \<and>
     class_of p' ''fluencyScore'' = Some (''skill-score '' @ getScoreClass (fluency (skills d))) \<and>
     width_of p' ''fluencyProgress'' = Some (Some (Percent (fluency (skills d) / 9 * 100))) \<and>
     text_of p' ''fluencyFeedback'' =
       Some (fluency_messages (classifyScore (fluency (skills d)))) \<and>
     text_of p' ''vocabularyScore'' = Some (toFixed ts 1 (vocabulary (skills d))) \<and>
     class_of p' ''vocabularyScore'' =
       Some (''skill-score '' @ getScoreClass (vocabulary (skills d))) \<and>
     width_of p' ''vocabularyProgress'' =
       Some (Some (Percent (vocabulary (skills d) / 9 * 100))) \<and>
     text_of p' ''vocabularyFeedback'' =
       Some (vocabulary_messages (classifyScore (vocabulary (skills d)))) \<and>
     text_of p' ''grammarScore'' = Some (toFixed ts 1 (grammar (skills d))) \<and>
     class_of p' ''grammarScore'' = Some (''skill-score '' @ getScoreClass (grammar (skills d))) \<and>
     width_of p' ''grammarProgress'' = Some (Some (Percent (grammar (skills d) / 9 * 100))) \<and>
     text_of p' ''grammarFeedback'' =
       Some (grammar_messages (classifyScore (grammar (skills d)))) \<and>
     charts p' = charts p @
       [\<lparr>canvas = ''radarChart'', chart_type = ''radar'', labels = skillLabels,
         dataset_label = ''Skills Assessment'', dataset = skillValues (skills d)\<rparr>,
        \<lparr>canvas = ''barChart'', chart_type = ''bar'', labels = skillLabels,
         dataset_label = ''Score'', dataset = skillValues (skills d)\<rparr>] \<and>
     console p' = console p \<and> alerts p' = alerts p"
proof -
  have "\<forall>i \<in> set page_ids. \<exists>e. elements p i = Some e"
    using ids by auto
  then obtain e1 e2 e3 e4 e5 e6 e7 e8 e9 e10 e11 e12 e13 e14 e15 e16 e17 e18 e19 where
    "elements p ''studentName'' = Some e1" "elements p ''testDate'' = Some e2"
    "elements p ''overallScore'' = Some e3" "elements p ''overallDescription'' = Some e4"
    "elements p ''overallFeedback'' = Some e5"
    "elements p ''pronunciationScore'' = Some e6" "elements p ''pronunciationProgress'' = Some e7"
    "elements p ''pronunciationFeedback'' = Some e8"
    "elements p ''fluencyScore'' = Some e9" "elements p ''fluencyProgress'' = Some e10"
    "elements p ''fluencyFeedback'' = Some e11"
    "elements p ''vocabularyScore'' = Some e12" "elements p ''vocabularyProgress'' = Some e13"
    "elements p ''vocabularyFeedback'' = Some e14"
    "elements p ''grammarScore'' = Some e15" "elements p ''grammarProgress'' = Some e16"
    "elements p ''grammarFeedback'' = Some e17"
    "elements p ''radarChart'' = Some e18" "elements p ''barChart'' = Some e19"
    unfolding page_ids_def by (simp only: list.set ball_simps) blast
  then show ?thesis
    by (simp add: displayStudentData_def createCharts_def setTextContent_def setClassName_def
        setFeedback_def updateProgressBar_def newChart_def getFeedback_own Let_def)
qed

lemma blank_page_ids: "set page_ids \<subseteq> dom (elements blank_page)"
  by (auto simp: blank_page_def)

text \<open>
  C5: on a page that has the elements the script looks up, displaying the record with
  overall score 7.5 and skills pronunciation 8.0, fluency 7.5, vocabulary 7.0, grammar 7.5
  completes and leaves: the overall score shown as \<open>7.5\<close> with the style good, the
  pronunciation score with the style excellent and its progress bar at the fraction
  8.0 / 9.0 (as a percentage), and the grammar score with the style good.
\<close>

theorem displayStudentData_example:
  assumes "set page_ids \<subseteq> dom (elements p)"
  shows "\<exists>p'. displayStudentData ts
            \<lparr>studentId = sid, studentName = name, testDate = date, overallScore = 7.5,
              skills = \<lparr>pronunciation = 8.0, fluency = 7.5, vocabulary = 7.0, grammar = 7.5\<rparr>\<rparr> p
            = (None, p') \<and>
          text_of p' ''overallScore'' = Some ''7.5'' \<and>
          class_of p' ''overallScore'' = Some ''score-value score-good'' \<and>
          class_of p' ''pronunciationScore'' = Some ''skill-score score-excellent'' \<and>
          width_of p' ''pronunciationProgress'' = Some (Some (Percent (8.0 / 9.0 * 100))) \<and>
          class_of p' ''grammarScore'' = Some ''skill-score score-good''"
proof -
  let ?d = "\<lparr>studentId = sid, studentName = name, testDate = date, overallScore = 7.5,
              skills = \<lparr>pronunciation = 8.0, fluency = 7.5, vocabulary = 7.0, grammar = 7.5\<rparr>\<rparr>"
  from displayStudentData_effect [OF assms, of ts ?d]
  obtain p' where run: "displayStudentData ts ?d p = (None, p')"
    and "text_of p' ''overallScore'' = Some (toFixed ts 1 (overallScore ?d))"
    and "class_of p' ''overallScore'' = Some (''score-value '' @ getScoreClass (overallScore ?d))"
    and "class_of p' ''pronunciationScore'' =
           Some (''skill-score '' @ getScoreClass (pronunciation (skills ?d)))"
    and "width_of p' ''pronunciationProgress'' =
           Some (Some (Percent (pronunciation (skills ?d) / 9 * 100)))"
    and "class_of p' ''grammarScore'' = Some (''skill-score '' @ getScoreClass (grammar (skills ?d)))"
    by blast
  moreover have "toFixed ts 1 7.5 = ''7.5''"
    by (simp add: toFixed_def Let_def decimal.simps digit_def)
  moreover have "getScoreClass 7.5 = ''score-good''" "getScoreClass 8.0 = ''score-excellent''"
    by (simp_all add: getScoreClass_def)
  ultimately show ?thesis by simp
qed

theorem displayStudentData_example_witness:
  "set page_ids \<subseteq> dom (elements blank_page) \<and>
   (\<exists>p'. displayStudentData no_exponent john_doe blank_page = (None, p') \<and>
          text_of p' ''overallScore'' = Some ''7.5'' \<and>
          class_of p' ''overallScore'' = Some ''score-value score-good'' \<and>
          class_of p' ''pronunciationScore'' = Some ''skill-score score-excellent'' \<and>
          width_of p' ''pronunciationProgress'' = Some (Some (Percent (8.0 / 9.0 * 100))) \<and>
          class_of p' ''grammarScore'' = Some ''skill-score score-good'')"
  using blank_page_ids
    displayStudentData_example [OF blank_page_ids, of no_exponent "''STU001''" "''John Doe''" "''2024-12-20''"]
  unfolding john_doe_def by (rule conjI)

text \<open>
  C6: the two charts that the display creates get the same series: the labels
  Pronunciation, Fluency, Vocabulary, Grammar in this order, each paired with the score of
  that skill in the record.
\<close>

theorem chart_series:
  assumes "set page_ids \<subseteq> dom (elements p)"
  shows "\<exists>p' radar bar. displayStudentData ts d p = (None, p') \<and>
           charts p' = charts p @ [radar, bar] \<and>
           chart_type radar = ''radar'' \<and> chart_type bar = ''bar'' \<and>
           zip (labels radar) (dataset radar) =
             [(''Pronunciation'', pronunciation (skills d)), (''Fluency'', fluency (skills d)),
              (''Vocabulary'', vocabulary (skills d)), (''Grammar'', grammar (skills d))] \<and>
           zip (labels bar) (dataset bar) = zip (labels radar) (dataset radar)"
proof -
  from displayStudentData_effect [OF assms, of ts d]
  obtain p' where "displayStudentData ts d p = (None, p')"
    and "charts p' = charts p @
       [\<lparr>canvas = ''radarChart'', chart_type = ''radar'', labels = skillLabels,
         dataset_label = ''Skills Assessment'', dataset = skillValues (skills d)\<rparr>,
        \<lparr>canvas = ''barChart'', chart_type = ''bar'', labels = skillLabels,
         dataset_label = ''Score'', dataset = skillValues (skills d)\<rparr>]"
    by blast
  then show ?thesis
    by (simp add: skillLabels_def skillValues_def)
qed

theorem chart_series_witness:
  "set page_ids \<subseteq> dom (elements blank_page) \<and>
   (\<exists>p' radar bar. displayStudentData no_exponent john_doe blank_page = (None, p') \<and>
           charts p' = charts blank_page @ [radar, bar] \<and>
           chart_type radar = ''radar'' \<and> chart_type bar = ''bar'' \<and>
           zip (labels radar) (dataset radar) =
             [(''Pronunciation'', pronunciation (skills john_doe)), (''Fluency'', fluency (skills john_doe)),
              (''Vocabulary'', vocabulary (skills john_doe)), (''Grammar'', grammar (skills john_doe))] \<and>
           zip (labels bar) (dataset bar) = zip (labels radar) (dataset radar))"
  using blank_page_ids chart_series [OF blank_page_ids, of no_exponent john_doe]
  by (rule conjI)

section \<open>Loading\<close>

text \<open>
  C7: when the fetch fails, the script logs the error, alerts the user and leaves the
  elements and the charts of the page as they were: the display is not run. This holds
  when the request is rejected, when the status of the response is outside 200 to 299
  (whatever its body is), and when the body is not well-formed JSON. When the server
  cannot read the file or cannot parse it, it replies with the status 500, which is
  such a status.
\<close>

theorem retrieval_failure:
  "loadStudentData ts (Rejects e) p = catch_block e p \<and>
   (\<not> response_ok st \<longrightarrow>
      loadStudentData ts (Resolves st js) p = catch_block (Error ''Failed to fetch data'') p) \<and>
   (response_ok st \<longrightarrow> loadStudentData ts (Resolves st (Inl e)) p = catch_block e p) \<and>
   elements (catch_block e p) = elements p \<and> charts (catch_block e p) = charts p \<and>
   console (catch_block e p) = console p @ [(''Error loading student data:'', e)] \<and>
   alerts (catch_block e p) = alerts p @
     [''Failed to load student data. Please make sure the server is running on port 3000.''] \<and>
   student_report (Inl message) JSON_parse =
     \<lparr>status = 500, body = ErrorJson ''Failed to load student data'' message\<rparr> \<and>
   (JSON_parse file_text = Inl message \<longrightarrow>
      student_report (Inr file_text) JSON_parse =
        \<lparr>status = 500, body = ErrorJson ''Failed to load student data'' message\<rparr>) \<and>
   \<not> response_ok 500"
  by (simp add: loadStudentData_def catch_block_def student_report_def response_ok_def)

theorem retrieval_failure_witness:
  "\<not> response_ok 500 \<and>
   loadStudentData no_exponent (Resolves 500 (Inr john_doe)) blank_page =
     catch_block (Error ''Failed to fetch data'') blank_page \<and>
   response_ok 200 \<and>
   loadStudentData no_exponent (Resolves 200 (Inl (SyntaxError ''Unexpected end of JSON input'')))
     blank_page = catch_block (SyntaxError ''Unexpected end of JSON input'') blank_page \<and>
   no_json [] = Inl ''Unexpected end of JSON input'' \<and>
   student_report (Inr []) no_json =
     \<lparr>status = 500,
      body = ErrorJson ''Failed to load student data'' ''Unexpected end of JSON input''\<rparr>"
proof -
  have h1: "\<not> response_ok 500" and h2: "response_ok 200"
    by (simp_all add: response_ok_def)
  have h3: "no_json [] = Inl ''Unexpected end of JSON input''"
    by (simp add: no_json_def)
  show ?thesis
    using h1 h2 h3
      retrieval_failure [where st = 500 and js = "Inr john_doe" and p = blank_page
        and ts = no_exponent and JSON_parse = no_json and file_text = "[]"
        and message = "''Unexpected end of JSON input''"]
      retrieval_failure [where st = 200 and p = blank_page and ts = no_exponent
        and e = "SyntaxError ''Unexpected end of JSON input''"]
    by blast
qed

section \<open>One-decimal display and its reading\<close>

lemma digit_value_digit: "d < 10 \<Longrightarrow> digit_value (digit d) = Some d"
proof -
  assume "d < 10"
  then have "d \<in> {0, 1, 2, 3, 4, 5, 6, 7, 8, 9}" by auto
  then show ?thesis by (auto simp: digit_def digit_value_def)
qed

lemma digit_not_sign: "d < 10 \<Longrightarrow> digit d \<noteq> CHR ''.'' \<and> digit d \<noteq> CHR ''-''"
proof -
  assume "d < 10"
  then have "d \<in> {0, 1, 2, 3, 4, 5, 6, 7, 8, 9}" by auto
  then show ?thesis by (auto simp: digit_def)
qed

lemma digits_value_snoc:
  "digits_value acc (cs @ [c]) =
     (case digits_value acc cs of None \<Rightarrow> None
      | Some v \<Rightarrow> (case digit_value c of None \<Rightarrow> None | Some d \<Rightarrow> Some (10 * v + d)))"
  by (induction cs arbitrary: acc) (auto split: option.splits)

lemma digits_value_decimal: "digits_value 0 (decimal n) = Some n"
proof (induction n rule: decimal.induct)
  case (1 n)
  show ?case
  proof (cases "n < 10")
    case True
    then show ?thesis by (subst decimal.simps) (simp add: digit_value_digit)
  next
    case False
    with 1 have "digits_value 0 (decimal (n div 10)) = Some (n div 10)" by simp
    with False show ?thesis
      by (subst decimal.simps) (simp add: digits_value_snoc digit_value_digit)
  qed
qed

lemma decimal_chars: "c \<in> set (decimal n) \<Longrightarrow> c \<noteq> CHR ''.'' \<and> c \<noteq> CHR ''-''"
proof (induction n rule: decimal.induct)
  case (1 n)
  show ?case
  proof (cases "n < 10")
    case True
    with 1(2) show ?thesis using digit_not_sign[of n] by (subst (asm) decimal.simps) simp
  next
    case False
    with 1(2) have "c \<in> set (decimal (n div 10)) \<or> c = digit (n mod 10)"
      by (subst (asm) decimal.simps) auto
    with 1(1) False show ?thesis using digit_not_sign[of "n mod 10"] by auto
  qed
qed

lemma decimal_nonempty: "decimal n \<noteq> []"
  by (subst decimal.simps) simp

lemma decimal_0: "decimal 0 = ''0''"
  by (simp add: decimal.simps digit_def)

lemma toFixed_1_digits:
  assumes "0 \<le> x" "x < 10 ^ 21"
  shows "toFixed ts 1 x =
           decimal (nat \<lfloor>x * 10 + 1 / 2\<rfloor> div 10) @ ''.'' @ [digit (nat \<lfloor>x * 10 + 1 / 2\<rfloor> mod 10)]"
proof -
  define n where "n = nat \<lfloor>x * 10 + 1 / 2\<rfloor>"
  show ?thesis
  proof (cases "n < 10")
    case True
    then have "decimal n = [digit n]"
      by (subst decimal.simps) simp
    then show ?thesis using assms True
      by (simp add: toFixed_def Let_def n_def[symmetric] decimal_0)
  next
    case False
    then have "decimal n = decimal (n div 10) @ [digit (n mod 10)]"
      by (subst decimal.simps) simp
    moreover have "decimal (n div 10) \<noteq> []" by (rule decimal_nonempty)
    ultimately show ?thesis using assms
      by (simp add: toFixed_def Let_def n_def[symmetric])
  qed
qed

lemma toFixed_1_neg:
  assumes "x < 0" "- (10 ^ 21) < x"
  shows "toFixed ts 1 x = ''-'' @ toFixed ts 1 (- x)"
  using assms by (simp add: toFixed_def Let_def)

lemma takeWhile_decimal:
  "takeWhile (\<lambda>c. c \<noteq> CHR ''.'') (decimal q @ CHR ''.'' # cs) = decimal q"
  using decimal_chars[of _ q] by (simp add: takeWhile_append2)

lemma hd_decimal: "hd (decimal q) \<noteq> CHR ''-''"
  using decimal_chars[of "hd (decimal q)" q] decimal_nonempty[of q] by simp

lemma parseDecimal_digits:
  assumes "r < 10"
  shows "parseDecimal (decimal q @ ''.'' @ [digit r]) = Some (real q + real r / 10)"
    and "parseDecimal (''-'' @ decimal q @ ''.'' @ [digit r]) = Some (- (real q + real r / 10))"
  using assms hd_decimal[of q]
  by (simp_all add: parseDecimal_def Let_def takeWhile_decimal decimal_nonempty
      digits_value_decimal digit_value_digit hd_append)

text \<open>
  C8 (as the code has it): for every score \<open>s\<close> of magnitude below \<open>10^21\<close>, the score
  formatted to one decimal is a decimal numeral whose value \<open>v\<close> is within 0.05 of \<open>s\<close>.
  Formatting \<open>v\<close> again gives the same string when \<open>s\<close> is not negative or is at most
  -0.05 (and \<open>s\<close> is not within 0.05 of \<open>10^21\<close>). For a score between -0.05 and 0 the
  string is \<open>-0.0\<close>, its value is 0, and 0 is formatted as \<open>0.0\<close>. The value is the
  exact one of the numeral (\<open>parseDecimal\<close>).
\<close>

theorem toFixed_round_trip:
  assumes "\<bar>s\<bar> < 10 ^ 21"
  shows "\<exists>v. parseDecimal (toFixed ts 1 s) = Some v \<and> \<bar>v - s\<bar> \<le> 0.05 \<and>
           ((0 \<le> s \<or> s \<le> - 0.05) \<and> \<bar>s\<bar> + 0.05 < 10 ^ 21 \<longrightarrow>
              toFixed ts 1 v = toFixed ts 1 s) \<and>
           (- 0.05 < s \<and> s < 0 \<longrightarrow>
              toFixed ts 1 s = ''-0.0'' \<and> v = 0 \<and> toFixed ts 1 v = ''0.0'')"
proof -
  define x where "x = \<bar>s\<bar>"
  define n where "n = nat \<lfloor>x * 10 + 1 / 2\<rfloor>"
  define v where "v = real (n div 10) + real (n mod 10) / 10"
  have x: "0 \<le> x" "x < 10 ^ 21" using assms by (simp_all add: x_def)
  have fl: "0 \<le> \<lfloor>x * 10 + 1 / 2\<rfloor>" using x by simp
  have v: "v = real n / 10"
  proof -
    have "real n = real (10 * (n div 10) + n mod 10)" by simp
    also have "\<dots> = 10 * real (n div 10) + real (n mod 10)"
      by (simp only: of_nat_add of_nat_mult of_nat_numeral)
    finally show ?thesis by (simp add: v_def)
  qed
  have n_real: "real n = of_int \<lfloor>x * 10 + 1 / 2\<rfloor>" using fl by (simp add: n_def)
  have lo: "real n \<le> x * 10 + 1 / 2" unfolding n_real by (rule of_int_floor_le)
  have hi: "x * 10 + 1 / 2 < real n + 1" unfolding n_real by linarith
  have dist: "\<bar>v - x\<bar> \<le> 1 / 20"
    using lo hi unfolding v by linarith
  have fmt: "toFixed ts 1 x = decimal (n div 10) @ ''.'' @ [digit (n mod 10)]"
    using toFixed_1_digits[OF x] by (simp add: n_def)
  have again: "x + 0.05 < 10 ^ 21 \<Longrightarrow> toFixed ts 1 v = toFixed ts 1 x"
  proof -
    assume b: "x + 0.05 < 10 ^ 21"
    have v0: "0 \<le> v" by (simp add: v)
    have vb: "v < 10 ^ 21" using lo b by (simp add: v)
    have "\<lfloor>v * 10 + 1 / 2\<rfloor> = int n"
      by (simp add: v floor_eq_iff)
    then have "nat \<lfloor>v * 10 + 1 / 2\<rfloor> = n" by simp
    then show ?thesis using toFixed_1_digits[OF v0 vb, of ts] fmt by simp
  qed
  show ?thesis
  proof (cases "0 \<le> s")
    case True
    then have sx: "s = x" by (simp add: x_def)
    have "parseDecimal (toFixed ts 1 s) = Some v"
      unfolding sx fmt v_def by (rule parseDecimal_digits) simp
    then show ?thesis using dist again True by (auto simp: sx)
  next
    case False
    then have sx: "s = - x" and neg: "s < 0" by (simp_all add: x_def)
    have fs: "toFixed ts 1 s = ''-'' @ toFixed ts 1 x"
      using toFixed_1_neg[of s ts] neg assms by (simp add: sx)
    have p: "parseDecimal (toFixed ts 1 s) = Some (- v)"
      unfolding fs fmt v_def by (rule parseDecimal_digits) simp
    have d: "\<bar>- v - s\<bar> \<le> 1 / 20" using dist unfolding sx by linarith
    have far: "toFixed ts 1 (- v) = toFixed ts 1 s" if a: "s \<le> - 0.05" and b: "x + 0.05 < 10 ^ 21"
    proof -
      have "1 / 2 \<le> x * 10" using a by (simp add: sx)
      then have "1 \<le> \<lfloor>x * 10 + 1 / 2\<rfloor>" by linarith
      then have "0 < v" by (simp add: v n_def)
      moreover have "v < 10 ^ 21" using lo b by (simp add: v)
      ultimately have "toFixed ts 1 (- v) = ''-'' @ toFixed ts 1 v"
        using toFixed_1_neg[of "- v" ts] by simp
      then show ?thesis using again[OF b] fs by simp
    qed
    have near: "toFixed ts 1 s = ''-0.0'' \<and> - v = 0 \<and> toFixed ts 1 (- v) = ''0.0''"
      if a: "- 0.05 < s"
    proof -
      have "x * 10 + 1 / 2 < 1" using a by (simp add: sx)
      then have "\<lfloor>x * 10 + 1 / 2\<rfloor> = 0" using x by (simp add: floor_eq_iff)
      then have n0: "n = 0" by (simp add: n_def)
      then have v0: "v = 0" by (simp add: v)
      have "toFixed ts 1 x = ''0.0''" unfolding fmt n0 by (simp add: decimal_0 digit_def)
      moreover have "toFixed ts 1 0 = ''0.0''"
        by (simp add: toFixed_def Let_def decimal_0)
      ultimately show ?thesis using fs v0 by simp
    qed
    show ?thesis using p d False far near by (auto simp: x_def)
  qed
qed

theorem toFixed_round_trip_witness:
  "\<bar>7.46\<bar> < (10::real) ^ 21 \<and>
   ((0 \<le> (7.46::real) \<or> (7.46::real) \<le> - 0.05) \<and> \<bar>7.46\<bar> + 0.05 < (10::real) ^ 21) \<and>
   (\<exists>v. parseDecimal (toFixed no_exponent 1 7.46) = Some v \<and> \<bar>v - 7.46\<bar> \<le> 0.05 \<and>
        toFixed no_exponent 1 v = toFixed no_exponent 1 7.46)"
proof -
  have h1: "\<bar>7.46\<bar> < (10::real) ^ 21" by simp
  have h2: "(0 \<le> (7.46::real) \<or> (7.46::real) \<le> - 0.05) \<and> \<bar>7.46\<bar> + 0.05 < (10::real) ^ 21"
    by simp
  show ?thesis
    using h1 h2 toFixed_round_trip [OF h1, of no_exponent] by blast
qed

text \<open>
  C8 as stated fails at the score -0.01: it is shown as \<open>-0.0\<close>, which reads as 0, and 0
  is shown as \<open>0.0\<close>. It also fails at the score 0.75 when the string is read as the
  language reads it: 0.75 is shown as \<open>0.8\<close>, and the binary64 number nearest to 0.8 lies
  above 0.8, more than 0.05 away from 0.75.
\<close>

theorem toFixed_round_trip_counterexample:
  "toFixed no_exponent 1 (- 0.01) = ''-0.0'' \<and>
   parseDecimal ''-0.0'' = Some 0 \<and> parseFloat ''-0.0'' = Some 0 \<and>
   toFixed no_exponent 1 0 = ''0.0'' \<and>
   toFixed no_exponent 1 0.75 = ''0.8'' \<and>
   parseFloat ''0.8'' = Some (7205759403792794 / 2 ^ 53) \<and>
   \<not> \<bar>7205759403792794 / 2 ^ 53 - 0.75\<bar> \<le> (0.05 :: real)"
proof -
  have one: "bitlen 1 = 1"
    by (subst compute_bitlen) simp
  have "toFixed no_exponent 1 (- 0.01) = ''-0.0''" "toFixed no_exponent 1 0 = ''0.0''"
    "toFixed no_exponent 1 0.75 = ''0.8''"
    by (simp_all add: toFixed_def Let_def decimal.simps digit_def)
  moreover have "parseDecimal ''-0.0'' = Some 0" "parseDecimal ''0.8'' = Some 0.8"
    by (simp_all add: parseDecimal_def digit_value_def)
  moreover have "binary64 0 = Some 0" "binary64 0.8 = Some (7205759403792794 / 2 ^ 53)"
    by (simp_all add: binary64_def binary_exponent_def round_half_even_def Let_def one
        power_int_minus_divide)
  moreover have "\<not> \<bar>7205759403792794 / 2 ^ 53 - 0.75\<bar> \<le> (0.05 :: real)"
    by simp
  ultimately show ?thesis
    by (simp add: parseFloat_def)
qed

section \<open>Scores outside the scale\<close>

text \<open>
  C9: no score is rejected. A negative score is classified NeedsImprovement and poor, a
  score above 9 Excellent and excellent, by the same comparisons; \<open>getFeedback\<close> returns a
  string for it in each of the five categories; on a page that has the elements the
  script looks up, the display of any record completes, whatever its scores are, and sets
  each progress bar to the score divided by 9, as a percentage, without clamping: the
  percentage is above 100 for a score above 9 and negative for a negative score.
\<close>

theorem out_of_domain_scores:
  assumes "set page_ids \<subseteq> dom (elements p)"
  shows "(s < 0 \<longrightarrow> classifyScore s = NeedsImprovement \<and> getScoreClass s = ''score-poor'') \<and>
         (9 < s \<longrightarrow> classifyScore s = Excellent \<and> getScoreClass s = ''score-excellent'') \<and>
         (k \<in> set skillTypes \<longrightarrow> (\<exists>m. getFeedback s (Some k) = Inr (Str m))) \<and>
         (\<exists>p'. displayStudentData ts d p = (None, p') \<and>
            width_of p' ''pronunciationProgress'' =
              Some (Some (Percent (pronunciation (skills d) / 9 * 100))) \<and>
            width_of p' ''fluencyProgress'' = Some (Some (Percent (fluency (skills d) / 9 * 100))) \<and>
            width_of p' ''vocabularyProgress'' =
              Some (Some (Percent (vocabulary (skills d) / 9 * 100))) \<and>
            width_of p' ''grammarProgress'' = Some (Some (Percent (grammar (skills d) / 9 * 100)))) \<and>
         (\<exists>p'. updateProgressBar ''grammarProgress'' s p = (None, p') \<and>
            width_of p' ''grammarProgress'' = Some (Some (Percent (s / 9 * 100)))) \<and>
         (9 < s \<longrightarrow> 100 < s / 9 * 100) \<and> (s < 0 \<longrightarrow> s / 9 * 100 < 0)"
proof -
  have "(s < 0 \<longrightarrow> classifyScore s = NeedsImprovement \<and> getScoreClass s = ''score-poor'') \<and>
        (9 < s \<longrightarrow> classifyScore s = Excellent \<and> getScoreClass s = ''score-excellent'')"
    by (simp add: classifyScore_def getScoreClass_def)
  moreover have "k \<in> set skillTypes \<longrightarrow> (\<exists>m. getFeedback s (Some k) = Inr (Str m))"
    unfolding skillTypes_def by (auto simp: getFeedback_own)
  moreover have "\<exists>p'. displayStudentData ts d p = (None, p') \<and>
            width_of p' ''pronunciationProgress'' =
              Some (Some (Percent (pronunciation (skills d) / 9 * 100))) \<and>
            width_of p' ''fluencyProgress'' = Some (Some (Percent (fluency (skills d) / 9 * 100))) \<and>
            width_of p' ''vocabularyProgress'' =
              Some (Some (Percent (vocabulary (skills d) / 9 * 100))) \<and>
            width_of p' ''grammarProgress'' = Some (Some (Percent (grammar (skills d) / 9 * 100)))"
    using displayStudentData_effect [OF assms, of ts d] by blast
  moreover have "\<exists>p'. updateProgressBar ''grammarProgress'' s p = (None, p') \<and>
            width_of p' ''grammarProgress'' = Some (Some (Percent (s / 9 * 100)))"
  proof -
    have "''grammarProgress'' \<in> dom (elements p)"
      using assms by (auto simp: page_ids_def)
    then obtain el where "elements p ''grammarProgress'' = Some el" by blast
    then show ?thesis by (simp add: updateProgressBar_def)
  qed
  moreover have "(9 < s \<longrightarrow> 100 < s / 9 * 100) \<and> (s < 0 \<longrightarrow> s / 9 * 100 < 0)"
    by (simp add: field_simps)
  ultimately show ?thesis by blast
qed

theorem out_of_domain_scores_witness:
  "set page_ids \<subseteq> dom (elements blank_page) \<and>
   (- 1 :: real) < 0 \<and> classifyScore (- 1) = NeedsImprovement \<and>
   getScoreClass (- 1) = ''score-poor'' \<and> (- 1 :: real) / 9 * 100 < 0 \<and>
   (9 :: real) < 12 \<and> classifyScore 12 = Excellent \<and>
   getScoreClass 12 = ''score-excellent'' \<and> 100 < (12 :: real) / 9 * 100 \<and>
   ''fluency'' \<in> set skillTypes \<and> (\<exists>m. getFeedback 12 (Some ''fluency'') = Inr (Str m)) \<and>
   (\<exists>p'. displayStudentData no_exponent off_scale blank_page = (None, p') \<and>
      width_of p' ''pronunciationProgress'' =
        Some (Some (Percent (pronunciation (skills off_scale) / 9 * 100))) \<and>
      width_of p' ''fluencyProgress'' = Some (Some (Percent (fluency (skills off_scale) / 9 * 100))) \<and>
      width_of p' ''vocabularyProgress'' =
        Some (Some (Percent (vocabulary (skills off_scale) / 9 * 100))) \<and>
      width_of p' ''grammarProgress'' = Some (Some (Percent (grammar (skills off_scale) / 9 * 100))))"
proof -
  have h1: "(- 1 :: real) < 0" and h2: "(9 :: real) < 12"
    by simp_all
  have h3: "''fluency'' \<in> set skillTypes"
    by (simp add: skillTypes_def)
  show ?thesis
    using blank_page_ids h1 h2 h3
      out_of_domain_scores [OF blank_page_ids, of "- 1" "''fluency''" no_exponent off_scale]
      out_of_domain_scores [OF blank_page_ids, of 12 "''fluency''" no_exponent off_scale]
    by blast
qed

end
